theory Spec2Isabelle
  imports Main
begin

section \<open>Record types\<close>

text \<open>
  The module \<^verbatim>\<open>model.py\<close> that declares \<^verbatim>\<open>MozVisit\<close>, \<^verbatim>\<open>MozPlace\<close> and \<^verbatim>\<open>Visit\<close> is
  not among the sources; the fields are the keyword arguments with which
  \<^verbatim>\<open>parse_db.py\<close> builds the three records.  Field names of the two raw records
  carry a prefix (\<open>v_\<close>, \<open>s_\<close>, after the loop variables \<^verbatim>\<open>v\<close> and \<^verbatim>\<open>s\<close> of
  \<^verbatim>\<open>single_db_merge\<close>), since a field name is a constant of the theory.  Python's
  \<^verbatim>\<open>None\<close> in an optional field is \<open>None\<close>.
\<close>

datatype tz = UTC

record datetime =
  year :: int
  month :: int
  day :: int
  hour :: int
  minute :: int
  second :: int
  microsecond :: int
  tzinfo :: tz

record MozVisit =
  v_url :: string
  v_place_id :: int
  v_visit_id :: int
  v_visit_date :: datetime
  v_visit_type :: int

record MozPlace =
  s_place_id :: int
  s_title :: "string option"
  s_description :: "string option"
  s_preview_image :: "string option"

record Visit =
  url :: string
  visit_date :: datetime
  visit_type :: int
  title :: "string option"
  description :: "string option"
  preview_image :: "string option"


section \<open>The record merger: \<^verbatim>\<open>single_db_merge\<close>\<close>

text \<open>
  \<^verbatim>\<open>site_dict: Dict[int, MozPlace] = {}; for s in site_list: site_dict[s.place_id] = s\<close>.
  The dictionary is a map; the loop is a recursion that carries it.
\<close>

fun build_site_dict :: "(int \<rightharpoonup> MozPlace) \<Rightarrow> MozPlace list \<Rightarrow> (int \<rightharpoonup> MozPlace)" where
  "build_site_dict site_dict [] = site_dict"
| "build_site_dict site_dict (s # site_list) =
     build_site_dict (site_dict(s_place_id s \<mapsto> s)) site_list"

text \<open>
  The body of the second loop: \<^verbatim>\<open>t = ds = pi = None\<close>, overwritten when
  \<^verbatim>\<open>v.place_id in site_dict\<close>, then the \<^verbatim>\<open>Visit\<close> that is yielded.
\<close>

definition merge_one :: "(int \<rightharpoonup> MozPlace) \<Rightarrow> MozVisit \<Rightarrow> Visit" where
  "merge_one site_dict v =
     (let (t, ds, pi) =
        (case site_dict (v_place_id v) of
           None \<Rightarrow> (None, None, None)
         | Some s \<Rightarrow> (s_title s, s_description s, s_preview_image s))
      in \<lparr>url = v_url v, visit_date = v_visit_date v, visit_type = v_visit_type v,
          title = t, description = ds, preview_image = pi\<rparr>)"

fun merge_loop :: "(int \<rightharpoonup> MozPlace) \<Rightarrow> MozVisit list \<Rightarrow> Visit list" where
  "merge_loop site_dict [] = []"
| "merge_loop site_dict (v # visit_list) = merge_one site_dict v # merge_loop site_dict visit_list"

definition single_db_merge :: "MozVisit list \<Rightarrow> MozPlace list \<Rightarrow> Visit list" where
  "single_db_merge visit_list site_list =
     merge_loop (build_site_dict Map.empty site_list) visit_list"

text \<open>The visit event a \<^verbatim>\<open>Visit\<close> carries: the three fields taken from the raw visit.\<close>

definition event_of_visit :: "Visit \<Rightarrow> string \<times> datetime \<times> int" where
  "event_of_visit x = (url x, visit_date x, visit_type x)"

definition event_of_raw :: "MozVisit \<Rightarrow> string \<times> datetime \<times> int" where
  "event_of_raw v = (v_url v, v_visit_date v, v_visit_type v)"

text \<open>The last record of a metadata sequence with a given page id, if any.\<close>

definition last_with_id :: "int \<Rightarrow> MozPlace list \<Rightarrow> MozPlace option" where
  "last_with_id pid site_list = List.find (\<lambda>s. s_place_id s = pid) (rev site_list)"

section \<open>The history store and the connections to it\<close>

text \<open>
  The schema is not part of the sources; the two tables are what the three queries
  read, with the column types of the data model (an optional text column is an
  \<open>option\<close>).  The field prefix is the alias of the table in the queries.
\<close>

record moz_historyvisits_row =
  V_id :: int
  V_place_id :: int
  V_visit_date :: int
  V_visit_type :: int

record moz_places_row =
  P_id :: int
  P_url :: string
  P_title :: "string option"
  P_description :: "string option"
  P_preview_image_url :: "string option"

text \<open>
  A database file: which of the tables the queries name exist, and their rows.  Of
  \<^verbatim>\<open>moz_meta\<close> only its existence matters, the probe fetches no row.
\<close>

record database =
  has_moz_meta :: bool
  moz_historyvisits :: "moz_historyvisits_row list option"
  moz_places :: "moz_places_row list option"

text \<open>
  What a file name leads to: a file \<^verbatim>\<open>sqlite3.connect\<close> cannot open, a file that opens
  but is no database (the first statement fails), or a database.
\<close>

datatype store = Unopenable | NotADatabase | Database database

text \<open>
  The exceptions of the module.  The first three are \<^verbatim>\<open>sqlite3\<close> errors, all of them
  subclasses of \<^verbatim>\<open>sqlite3.DatabaseError\<close>; \<^verbatim>\<open>ValueError\<close> is what
  \<^verbatim>\<open>datetime.fromtimestamp\<close> raises for a year outside 1..9999.
\<close>

datatype error =
  OperationalError string
| DatabaseError string
| ProgrammingError string
| ValueError string

fun is_DatabaseError :: "error \<Rightarrow> bool" where
  "is_DatabaseError (ValueError _) = False"
| "is_DatabaseError _ = True"

datatype row_factory_t = Tuple_rows | Row
datatype text_factory_t = Default_str | Decode_errors_ignore

record connection =
  conn_store :: store
  closed :: bool
  row_factory :: row_factory_t
  text_factory :: text_factory_t

text \<open>What the module does to the outside, in order.\<close>

datatype event =
  Connect nat
| Execute nat string
| Commit nat
| Rollback nat
| Close nat
| Log_error

text \<open>
  \<^verbatim>\<open>PathIsh = Union[str, Path]\<close> and \<^verbatim>\<open>PathIshOrConn\<close> add \<^verbatim>\<open>sqlite3.Connection\<close>
  (\<^verbatim>\<open>common.py\<close> is not among the sources; the three cases are the \<^verbatim>\<open>isinstance\<close>
  tests of \<^verbatim>\<open>_execute_query\<close>).  A connection is its index in the world's list.
\<close>

datatype PathIsh = Str string | Path string

datatype PathIshOrConn = IsPathIsh PathIsh | IsConnection nat

text \<open>
  The state outside the module's functions: the files, \<^verbatim>\<open>expand_path\<close> (of
  \<^verbatim>\<open>common.py\<close>, taken as a parameter), every connection made so far, the keys of the
  \<^verbatim>\<open>lru_cache\<close> of \<^verbatim>\<open>_sanity_check\<close>, and the events so far.
\<close>

record world =
  expand_path :: "PathIsh \<Rightarrow> string"
  files :: "string \<Rightarrow> store"
  connections :: "connection list"
  sanity_check_cache :: "PathIsh set"
  events :: "event list"

text \<open>
  A query is its SQL text and what it returns on a database: the rows in the order the
  cursor produces them, or the error of \<^verbatim>\<open>execute\<close>.
\<close>

record 'r query =
  sql :: string
  run :: "database \<Rightarrow> error + 'r list"

definition emit :: "event \<Rightarrow> world \<Rightarrow> world" where
  "emit e w = w\<lparr>events := events w @ [e]\<rparr>"

text \<open>
  \<^verbatim>\<open>sqlite3.connect(f"file:{p}?immutable=1", uri=True)\<close>: a new connection with the
  default factories, or \<^verbatim>\<open>OperationalError\<close>.
\<close>

definition sqlite3_connect :: "string \<Rightarrow> world \<Rightarrow> (error + nat) \<times> world" where
  "sqlite3_connect p w =
     (case files w p of
        Unopenable \<Rightarrow> (Inl (OperationalError ''unable to open database file''), w)
      | st \<Rightarrow>
          (let c = length (connections w) in
           (Inr c, emit (Connect c)
              (w\<lparr>connections := connections w @
                 [\<lparr>conn_store = st, closed = False, row_factory = Tuple_rows,
                   text_factory = Default_str\<rparr>]\<rparr>))))"

text \<open>
  \<^verbatim>\<open>conn.execute(query)\<close>.  On a closed connection (an index that names no connection
  counts as one) it raises \<^verbatim>\<open>ProgrammingError\<close>.  The store never changes, so the
  rows the cursor will produce are fixed when the statement is executed.
\<close>

definition conn_execute :: "nat \<Rightarrow> 'r query \<Rightarrow> world \<Rightarrow> (error + 'r list) \<times> world" where
  "conn_execute c q w =
     (let w' = emit (Execute c (sql q)) w in
      if c < length (connections w) \<and> \<not> closed (connections w ! c) then
        (case conn_store (connections w ! c) of
           Database db \<Rightarrow> (run q db, w')
         | _ \<Rightarrow> (Inl (DatabaseError ''file is not a database''), w'))
      else (Inl (ProgrammingError ''Cannot operate on a closed database.''), w'))"

definition conn_close :: "nat \<Rightarrow> world \<Rightarrow> world" where
  "conn_close c w =
     emit (Close c) (w\<lparr>connections := (connections w)[c := (connections w ! c)\<lparr>closed := True\<rparr>]\<rparr>)"

text \<open>
  Leaving \<^verbatim>\<open>with sqlite3.connect(...) as c:\<close>.  The context manager of a
  \<^verbatim>\<open>sqlite3.Connection\<close> commits when the block ends normally and rolls back when it
  ends by an exception; it does not close the connection.
\<close>

definition conn_exit :: "nat \<Rightarrow> bool \<Rightarrow> world \<Rightarrow> world" where
  "conn_exit c by_exception w = emit (if by_exception then Rollback c else Commit c) w"

definition set_row_factory :: "nat \<Rightarrow> row_factory_t \<Rightarrow> world \<Rightarrow> world" where
  "set_row_factory c f w =
     w\<lparr>connections := (connections w)[c := (connections w ! c)\<lparr>row_factory := f\<rparr>]\<rparr>"

definition set_text_factory :: "nat \<Rightarrow> text_factory_t \<Rightarrow> world \<Rightarrow> world" where
  "set_text_factory c f w =
     w\<lparr>connections := (connections w)[c := (connections w ! c)\<lparr>text_factory := f\<rparr>]\<rparr>"


section \<open>The queries\<close>

definition no_such_table :: "string \<Rightarrow> error" where
  "no_such_table t = OperationalError (''no such table: '' @ t)"

text \<open>The probe of \<^verbatim>\<open>_sanity_check\<close>.\<close>

definition META_QUERY :: "unit query" where
  "META_QUERY = \<lparr>sql = ''SELECT * from moz_meta'',
     run = (\<lambda>db. if has_moz_meta db then Inr [] else Inl (no_such_table ''moz_meta''))\<rparr>"

text \<open>
  \<^verbatim>\<open>FROM moz_historyvisits as V, moz_places as P WHERE V.place_id = P.id\<close>: the pairs
  of a visit and a place it refers to, visit by visit.
\<close>

definition visits_join ::
  "moz_historyvisits_row list \<Rightarrow> moz_places_row list \<Rightarrow> (moz_historyvisits_row \<times> moz_places_row) list" where
  "visits_join V P = concat (map (\<lambda>v. map (Pair v) (filter (\<lambda>p. V_place_id v = P_id p) P)) V)"

definition from_V_P ::
  "database \<Rightarrow> error + (moz_historyvisits_row \<times> moz_places_row) list" where
  "from_V_P db =
     (case moz_historyvisits db of
        None \<Rightarrow> Inl (no_such_table ''moz_historyvisits'')
      | Some V \<Rightarrow>
          (case moz_places db of
             None \<Rightarrow> Inl (no_such_table ''moz_places'')
           | Some P \<Rightarrow> Inr (visits_join V P)))"

text \<open>
  A row is the tuple of its columns, in the order of the \<^verbatim>\<open>SELECT\<close> list:
  \<^verbatim>\<open>url, pid, vid, visit_date, visit_type\<close>.
\<close>

type_synonym visit_row = "string \<times> int \<times> int \<times> int \<times> int"

definition VISIT_QUERY :: "visit_row query" where
  "VISIT_QUERY = \<lparr>sql = ''SELECT P.url, P.id AS pid, V.id as vid, V.visit_date, V.visit_type ...'',
     run = (\<lambda>db. map_sum id
       (map (\<lambda>(v, p). (P_url p, P_id p, V_id v, V_visit_date v, V_visit_type v))) (from_V_P db))\<rparr>"

text \<open>\<^verbatim>\<open>pid, title, description, preview_image_url\<close>.\<close>

type_synonym sitedata_row = "int \<times> string option \<times> string option \<times> string option"

definition SITEDATA_QUERY :: "sitedata_row query" where
  "SITEDATA_QUERY = \<lparr>sql = ''SELECT P.id AS pid, P.title, P.description, P.preview_image_url ...'',
     run = (\<lambda>db.
       (case moz_places db of
          None \<Rightarrow> Inl (no_such_table ''moz_places'')
        | Some P \<Rightarrow> Inr
            (map (\<lambda>p. (P_id p, P_title p, P_description p, P_preview_image_url p))
               (filter (\<lambda>p. P_title p \<noteq> None \<or> P_description p \<noteq> None \<or>
                  P_preview_image_url p \<noteq> None) P))))\<rparr>"

text \<open>\<^verbatim>\<open>url, visit_date, visit_type, title, description, preview_image_url\<close>.\<close>

type_synonym combined_row = "string \<times> int \<times> int \<times> string option \<times> string option \<times> string option"

definition COMBINED_QUERY :: "combined_row query" where
  "COMBINED_QUERY = \<lparr>sql = ''SELECT P.url, V.visit_date, V.visit_type, P.title, P.description, P.preview_image_url ...'',
     run = (\<lambda>db. map_sum id
       (map (\<lambda>(v, p). (P_url p, V_visit_date v, V_visit_type v, P_title p, P_description p,
          P_preview_image_url p))) (from_V_P db))\<rparr>"


section \<open>The source reader\<close>

text \<open>
  The body of \<^verbatim>\<open>_sanity_check\<close>: connect (outside the \<^verbatim>\<open>try\<close>), probe, log twice and
  re-raise on \<^verbatim>\<open>sqlite3.DatabaseError\<close>, and close in the \<^verbatim>\<open>finally\<close> clause.
\<close>

definition sanity_check_body :: "PathIsh \<Rightarrow> world \<Rightarrow> (error + unit) \<times> world" where
  "sanity_check_body sqlite_path w =
     (case sqlite3_connect (expand_path w sqlite_path) w of
        (Inl e, w1) \<Rightarrow> (Inl e, w1)
      | (Inr conn, w1) \<Rightarrow>
          (case conn_execute conn META_QUERY w1 of
             (Inl sql_err, w2) \<Rightarrow>
               (Inl sql_err,
                conn_close conn
                  (if is_DatabaseError sql_err then emit Log_error (emit Log_error w2) else w2))
           | (Inr _, w2) \<Rightarrow> (Inr (), conn_close conn w2)))"

text \<open>
  \<^verbatim>\<open>@lru_cache(maxsize=None)\<close>: a call with a key of the cache returns the stored result
  and does not run the body; otherwise the body runs, and its result is stored when it
  returns.  When the body raises, the exception passes through and nothing is stored.
\<close>

definition sanity_check :: "PathIsh \<Rightarrow> world \<Rightarrow> (error + unit) \<times> world" where
  "sanity_check sqlite_path w =
     (if sqlite_path \<in> sanity_check_cache w then (Inr (), w)
      else
        (case sanity_check_body sqlite_path w of
           (Inl e, w') \<Rightarrow> (Inl e, w')
         | (Inr r, w') \<Rightarrow>
             (Inr r, w'\<lparr>sanity_check_cache := insert sqlite_path (sanity_check_cache w')\<rparr>)))"

text \<open>
  \<^verbatim>\<open>_execute_conn\<close> up to its loop: the two assignments and \<^verbatim>\<open>conn.execute(query)\<close>.
\<close>

definition execute_conn :: "nat \<Rightarrow> 'r query \<Rightarrow> world \<Rightarrow> (error + 'r list) \<times> world" where
  "execute_conn conn q w =
     conn_execute conn q (set_text_factory conn Decode_errors_ignore (set_row_factory conn Row w))"

text \<open>
  \<^verbatim>\<open>_execute_query\<close> is a generator.  Its states: not started; suspended at the
  \<^verbatim>\<open>yield\<close> of \<^verbatim>\<open>_execute_conn\<close>, on a connection, inside the \<^verbatim>\<open>with\<close> block or not,
  with the rows the cursor has still to produce; finished.
\<close>

datatype 'r gen =
  NotStarted PathIshOrConn "'r query"
| Suspended nat bool "'r list"
| Finished

datatype 'a step = Yield 'a | StopIteration | Raise error

text \<open>
  From the first \<^verbatim>\<open>next\<close> to the loop of \<^verbatim>\<open>_execute_conn\<close>: the sanity check for a
  path, then either the caller's connection, or a connection of the generator's own
  in a \<^verbatim>\<open>with\<close> block, which an exception of \<^verbatim>\<open>execute\<close> leaves.
\<close>

definition execute_query_start ::
  "PathIshOrConn \<Rightarrow> 'r query \<Rightarrow> world \<Rightarrow> (error + nat \<times> bool \<times> 'r list) \<times> world" where
  "execute_query_start sqlite_path q w =
     (case sqlite_path of
        IsConnection conn \<Rightarrow>
          (case execute_conn conn q w of
             (Inl e, w1) \<Rightarrow> (Inl e, w1)
           | (Inr rows, w1) \<Rightarrow> (Inr (conn, False, rows), w1))
      | IsPathIsh path \<Rightarrow>
          (case sanity_check path w of
             (Inl e, w1) \<Rightarrow> (Inl e, w1)
           | (Inr _, w1) \<Rightarrow>
               (case sqlite3_connect (expand_path w1 path) w1 of
                  (Inl e, w2) \<Rightarrow> (Inl e, w2)
                | (Inr c, w2) \<Rightarrow>
                    (case execute_conn c q w2 of
                       (Inl e, w3) \<Rightarrow> (Inl e, conn_exit c True w3)
                     | (Inr rows, w3) \<Rightarrow> (Inr (c, True, rows), w3)))))"

text \<open>
  The loop of \<^verbatim>\<open>_execute_conn\<close> from its head: the next row is yielded; when the cursor
  is exhausted both generators return, through the end of the \<^verbatim>\<open>with\<close> block if there
  is one.
\<close>

definition execute_query_resume :: "nat \<Rightarrow> bool \<Rightarrow> 'r list \<Rightarrow> world \<Rightarrow> 'r step \<times> 'r gen \<times> world" where
  "execute_query_resume c in_with rows w =
     (case rows of
        [] \<Rightarrow> (StopIteration, Finished, if in_with then conn_exit c False w else w)
      | row # rest \<Rightarrow> (Yield row, Suspended c in_with rest, w))"

definition execute_query_next :: "'r gen \<Rightarrow> world \<Rightarrow> 'r step \<times> 'r gen \<times> world" where
  "execute_query_next g w =
     (case g of
        NotStarted sqlite_path q \<Rightarrow>
          (case execute_query_start sqlite_path q w of
             (Inl e, w1) \<Rightarrow> (Raise e, Finished, w1)
           | (Inr (c, in_with, rows), w1) \<Rightarrow> execute_query_resume c in_with rows w1)
      | Suspended c in_with rows \<Rightarrow> execute_query_resume c in_with rows w
      | Finished \<Rightarrow> (StopIteration, Finished, w))"

text \<open>
  Closing the generator where it is suspended (the consumer stops early, or fails and
  drops the generator): \<^verbatim>\<open>GeneratorExit\<close> is raised at the \<^verbatim>\<open>yield\<close> and leaves the
  \<^verbatim>\<open>with\<close> block as an exception does.
\<close>

definition execute_query_close :: "'r gen \<Rightarrow> world \<Rightarrow> 'r gen \<times> world" where
  "execute_query_close g w =
     (case g of
        Suspended c in_with rows \<Rightarrow> (Finished, if in_with then conn_exit c True w else w)
      | _ \<Rightarrow> (Finished, w))"


section \<open>Timestamps: \<^verbatim>\<open>datetime.fromtimestamp(row["visit_date"] / 1_000_000, timezone.utc)\<close>\<close>

text \<open>
  A finite binary64 number is \<open>m * 2 ^ e\<close> for integers \<open>m\<close> and \<open>e\<close> with
  \<open>\<bar>m\<bar> < 2 ^ 53\<close>; the pair \<open>(m, e)\<close> stands for it.  The results of the two
  arithmetic operations below are rounded to 53 significant bits, to nearest, ties to
  even.  Exponent overflow and subnormal numbers are left out: for a stored value of
  64 bits neither the quotient nor the product reaches them.
\<close>

type_synonym double = "int \<times> int"

fun bit_length :: "nat \<Rightarrow> nat" where
  "bit_length n = (if n = 0 then 0 else Suc (bit_length (n div 2)))"

declare bit_length.simps [simp del]

text \<open>The integer nearest to \<open>a / b\<close> for \<open>b > 0\<close>, a tie going to the even one.\<close>

definition rne_div :: "int \<Rightarrow> int \<Rightarrow> int" where
  "rne_div a b =
     (let q = a div b; r = a mod b in
      if 2 * r < b then q
      else if b < 2 * r then q + 1
      else if even q then q else q + 1)"

text \<open>
  \<^verbatim>\<open>a / b\<close> on Python integers, \<open>b > 0\<close>: the correctly rounded quotient.  The
  quotient is scaled by a power of two into \<open>[2 ^ 52, 2 ^ 53)\<close> and rounded there.
\<close>

definition true_div :: "int \<Rightarrow> int \<Rightarrow> double" where
  "true_div a b =
     (if a = 0 then (0, 0)
      else
        (let s0 = 53 + int (bit_length (nat b)) - int (bit_length (nat \<bar>a\<bar>));
             s = (if b * 2 ^ 53 * 2 ^ nat (- s0) \<le> \<bar>a\<bar> * 2 ^ nat s0 then s0 - 1 else s0)
         in (sgn a * rne_div (\<bar>a\<bar> * 2 ^ nat s) (b * 2 ^ nat (- s)), - s)))"

text \<open>Rounding an exact value \<open>m * 2 ^ e\<close> to 53 significant bits.\<close>

definition round_double :: "int \<times> int \<Rightarrow> double" where
  "round_double x =
     (case x of (m, e) \<Rightarrow>
        (let n = bit_length (nat \<bar>m\<bar>) in
         if n \<le> 53 then (m, e) else (rne_div m (2 ^ (n - 53)), e + int (n - 53))))"

text \<open>
  \<^verbatim>\<open>modf\<close>: the integral part, truncated towards zero, and the fractional part, which
  has the sign of the argument; both are exact.
\<close>

definition modf :: "double \<Rightarrow> double \<times> int" where
  "modf t =
     (case t of (m, e) \<Rightarrow>
        if 0 \<le> e then ((0, 0), m * 2 ^ nat e)
        else
          (let intpart = sgn m * (\<bar>m\<bar> div 2 ^ nat (- e)) in
           ((m - intpart * 2 ^ nat (- e), e), intpart)))"

text \<open>Rounding a double to an integer, half to even.\<close>

definition round_half_even :: "double \<Rightarrow> int" where
  "round_half_even x =
     (case x of (m, e) \<Rightarrow> if 0 \<le> e then m * 2 ^ nat e else rne_div m (2 ^ nat (- e)))"

text \<open>
  The conversion of a float timestamp to seconds and microseconds that
  \<^verbatim>\<open>fromtimestamp\<close> makes: the fractional part times \<open>1e6\<close>, rounded half to even, with
  a carry into the seconds when it reaches a million or is negative.
\<close>

definition timestamp_to_timeval :: "double \<Rightarrow> int \<times> int" where
  "timestamp_to_timeval t =
     (case modf t of ((fm, fe), intpart) \<Rightarrow>
        (let floatpart = round_half_even (round_double (fm * 1000000, fe)) in
         if 1000000 \<le> floatpart then (intpart + 1, floatpart - 1000000)
         else if floatpart < 0 then (intpart - 1, floatpart + 1000000)
         else (intpart, floatpart)))"

text \<open>
  The calendar date of a day number (days since 1970-01-01) in the proleptic Gregorian
  calendar, which is what \<^verbatim>\<open>gmtime\<close> computes.
\<close>

definition civil_from_days :: "int \<Rightarrow> int \<times> int \<times> int" where
  "civil_from_days days =
     (let z = days + 719468;
          era = z div 146097;
          doe = z mod 146097;
          yoe = (doe - doe div 1460 + doe div 36524 - doe div 146096) div 365;
          doy = doe - (365 * yoe + yoe div 4 - yoe div 100);
          mp = (5 * doy + 2) div 153;
          d = doy - (153 * mp + 2) div 5 + 1;
          m = (if mp < 10 then mp + 3 else mp - 9);
          y = yoe + era * 400 + (if m \<le> 2 then 1 else 0)
      in (y, m, d))"

text \<open>
  \<^verbatim>\<open>datetime.fromtimestamp(t, timezone.utc)\<close>: the fields of the UTC time, and
  \<^verbatim>\<open>ValueError\<close> when the year is not one a \<^verbatim>\<open>datetime\<close> can hold.
\<close>

definition fromtimestamp_utc :: "double \<Rightarrow> error + datetime" where
  "fromtimestamp_utc t =
     (case timestamp_to_timeval t of (secs, us) \<Rightarrow>
        (case civil_from_days (secs div 86400) of (y, m, d) \<Rightarrow>
           (let s = secs mod 86400 in
            if y < 1 \<or> 9999 < y then Inl (ValueError ''year is out of range'')
            else Inr \<lparr>year = y, month = m, day = d, hour = s div 3600,
              minute = s mod 3600 div 60, second = s mod 60, microsecond = us,
              tzinfo = UTC\<rparr>)))"



section \<open>The row readers\<close>

text \<open>
  \<^verbatim>\<open>for row in _execute_query(sqlite_path, QUERY): yield make(row)\<close>, the shape of
  \<^verbatim>\<open>single_db_visits\<close>, \<^verbatim>\<open>single_db_sitedata\<close> and \<^verbatim>\<open>read_visits\<close>: one \<^verbatim>\<open>next\<close> of
  such a generator, whose state is the state of the generator it iterates.  When
  \<^verbatim>\<open>make\<close> raises, the generator ends and lets go of the inner one, which is closed.
\<close>

definition for_rows_next ::
  "('r \<Rightarrow> error + 'a) \<Rightarrow> 'r gen \<Rightarrow> world \<Rightarrow> 'a step \<times> 'r gen \<times> world" where
  "for_rows_next mk g w =
     (case execute_query_next g w of
        (Yield row, g1, w1) \<Rightarrow>
          (case mk row of
             Inl e \<Rightarrow> (case execute_query_close g1 w1 of (g2, w2) \<Rightarrow> (Raise e, g2, w2))
           | Inr x \<Rightarrow> (Yield x, g1, w1))
      | (StopIteration, g1, w1) \<Rightarrow> (StopIteration, g1, w1)
      | (Raise e, g1, w1) \<Rightarrow> (Raise e, g1, w1))"

text \<open>The rows a generator has still to yield, at most.\<close>

fun remaining :: "'r gen \<Rightarrow> world \<Rightarrow> nat" where
  "remaining (NotStarted sqlite_path q) w =
     (case execute_query_start sqlite_path q w of
        (Inr (c, in_with, rows), w1) \<Rightarrow> Suc (length rows)
      | (Inl e, w1) \<Rightarrow> 0)"
| "remaining (Suspended c in_with rows) w = length rows"
| "remaining Finished w = 0"

text \<open>
  \<^verbatim>\<open>list(generator)\<close>: \<^verbatim>\<open>next\<close> until the generator stops, which gives the list, or
  raises, which gives the exception and no list.
\<close>

function list_of ::
  "('r \<Rightarrow> error + 'a) \<Rightarrow> 'r gen \<Rightarrow> world \<Rightarrow> (error + 'a list) \<times> world" where
  "list_of mk g w =
     (case for_rows_next mk g w of
        (Yield x, g1, w1) \<Rightarrow>
          (case list_of mk g1 w1 of
             (Inl e, w2) \<Rightarrow> (Inl e, w2)
           | (Inr xs, w2) \<Rightarrow> (Inr (x # xs), w2))
      | (StopIteration, g1, w1) \<Rightarrow> (Inr [], w1)
      | (Raise e, g1, w1) \<Rightarrow> (Inl e, w1))"
  by pat_completeness auto
termination
  apply (relation "measure (\<lambda>(mk, g, w). remaining g w)")
   apply simp
  apply (auto simp: for_rows_next_def execute_query_next_def execute_query_resume_def
      split: prod.splits sum.splits list.splits step.splits gen.splits)
  done

declare list_of.simps [simp del]

text \<open>
  The three makers.  \<^verbatim>\<open>urllib.parse.unquote\<close> is a parameter: a function from strings
  to strings that does not raise.
\<close>

definition make_MozVisit :: "(string \<Rightarrow> string) \<Rightarrow> visit_row \<Rightarrow> error + MozVisit" where
  "make_MozVisit unquote row =
     (case row of (row_url, row_pid, row_vid, row_visit_date, row_visit_type) \<Rightarrow>
        (case fromtimestamp_utc (true_div row_visit_date 1000000) of
           Inl e \<Rightarrow> Inl e
         | Inr dt \<Rightarrow> Inr \<lparr>v_url = unquote row_url, v_place_id = row_pid, v_visit_id = row_vid,
             v_visit_date = dt, v_visit_type = row_visit_type\<rparr>))"

definition make_MozPlace :: "(string \<Rightarrow> string) \<Rightarrow> sitedata_row \<Rightarrow> error + MozPlace" where
  "make_MozPlace unquote row =
     (case row of (row_pid, row_title, row_description, pimg) \<Rightarrow>
        Inr \<lparr>s_place_id = row_pid, s_title = row_title, s_description = row_description,
          s_preview_image = (case pimg of None \<Rightarrow> None | Some u \<Rightarrow> Some (unquote u))\<rparr>)"

definition make_Visit :: "(string \<Rightarrow> string) \<Rightarrow> combined_row \<Rightarrow> error + Visit" where
  "make_Visit unquote row =
     (case row of (row_url, row_visit_date, row_visit_type, row_title, row_description, pimg) \<Rightarrow>
        (case fromtimestamp_utc (true_div row_visit_date 1000000) of
           Inl e \<Rightarrow> Inl e
         | Inr dt \<Rightarrow> Inr \<lparr>url = unquote row_url, visit_date = dt, visit_type = row_visit_type,
             title = row_title, description = row_description,
             preview_image = (case pimg of None \<Rightarrow> None | Some u \<Rightarrow> Some (unquote u))\<rparr>))"

text \<open>
  What a loop over rows comes to: the records made from all the rows, or the first
  exception of a maker.
\<close>

fun collect :: "('r \<Rightarrow> error + 'a) \<Rightarrow> 'r list \<Rightarrow> error + 'a list" where
  "collect mk [] = Inr []"
| "collect mk (row # rows) =
     (case mk row of
        Inl e \<Rightarrow> Inl e
      | Inr x \<Rightarrow> (case collect mk rows of Inl e \<Rightarrow> Inl e | Inr xs \<Rightarrow> Inr (x # xs)))"



definition read_visits ::
  "(string \<Rightarrow> string) \<Rightarrow> PathIshOrConn \<Rightarrow> world \<Rightarrow> (error + Visit list) \<times> world" where
  "read_visits unquote sqlite_path =
     list_of (make_Visit unquote) (NotStarted sqlite_path COMBINED_QUERY)"




definition MozPlace_of :: "(string \<Rightarrow> string) \<Rightarrow> moz_places_row \<Rightarrow> MozPlace" where
  "MozPlace_of unquote p =
     \<lparr>s_place_id = P_id p, s_title = P_title p, s_description = P_description p,
      s_preview_image = map_option unquote (P_preview_image_url p)\<rparr>"

definition place_ids_unique :: "store \<Rightarrow> bool" where
  "place_ids_unique st =
     (case st of
        Database db \<Rightarrow> (case moz_places db of None \<Rightarrow> True | Some P \<Rightarrow> distinct (map P_id P))
      | _ \<Rightarrow> True)"





section \<open>Observations on worlds\<close>

text \<open>How often the probe statement of \<^verbatim>\<open>_sanity_check\<close> has been executed.\<close>

fun is_probe :: "event \<Rightarrow> bool" where
  "is_probe (Execute c s) = (s = sql META_QUERY)"
| "is_probe _ = False"

definition probe_count :: "world \<Rightarrow> nat" where
  "probe_count w = length (filter is_probe (events w))"

text \<open>
  The connections made on the way from a world to a later one, and those of them that
  are not closed in the later one.
\<close>

definition opened_between :: "world \<Rightarrow> world \<Rightarrow> nat list" where
  "opened_between w w' = [length (connections w) ..< length (connections w')]"

definition left_open :: "world \<Rightarrow> world \<Rightarrow> nat list" where
  "left_open w w' = filter (\<lambda>c. \<not> closed (connections w' ! c)) (opened_between w w')"

text \<open>
  The cache of \<^verbatim>\<open>_sanity_check\<close> holds only paths whose store has the marker table: so
  it is in a process that starts with an empty cache, the files being immutable.
\<close>

definition validated :: "world \<Rightarrow> PathIsh \<Rightarrow> bool" where
  "validated w p =
     (case files w (expand_path w p) of Database db \<Rightarrow> has_moz_meta db | _ \<Rightarrow> False)"

definition cache_sound :: "world \<Rightarrow> bool" where
  "cache_sound w = (\<forall>p \<in> sanity_check_cache w. validated w p)"

text \<open>
  A sample world: a history store with two visits and two places, a copy of it
  without the marker table, a database with the marker table only, and no connection
  yet.
\<close>

definition sample_db :: database where
  "sample_db = \<lparr>has_moz_meta = True,
     moz_historyvisits = Some
       [\<lparr>V_id = 10, V_place_id = 1, V_visit_date = 1700000000000000, V_visit_type = 1\<rparr>,
        \<lparr>V_id = 11, V_place_id = 2, V_visit_date = 0, V_visit_type = 2\<rparr>],
     moz_places = Some
       [\<lparr>P_id = 1, P_url = ''https://example.com/'', P_title = Some ''Home'',
          P_description = None, P_preview_image_url = None\<rparr>,
        \<lparr>P_id = 2, P_url = ''https://example.org/a%20b'', P_title = None,
          P_description = None, P_preview_image_url = None\<rparr>]\<rparr>"

definition sample_expand_path :: "PathIsh \<Rightarrow> string" where
  "sample_expand_path p = (case p of Str s \<Rightarrow> s | Path s \<Rightarrow> s)"

definition sample_files :: "string \<Rightarrow> store" where
  "sample_files f =
     (if f = ''places.sqlite'' then Database sample_db
      else if f = ''no_meta.sqlite'' then Database (sample_db\<lparr>has_moz_meta := False\<rparr>)
      else if f = ''meta_only.sqlite'' then
        Database \<lparr>has_moz_meta = True, moz_historyvisits = None, moz_places = None\<rparr>
      else Unopenable)"

definition sample_world :: world where
  "sample_world = \<lparr>expand_path = sample_expand_path, files = sample_files,
     connections = [], sanity_check_cache = {}, events = []\<rparr>"

text \<open>A database in which two places have the same id, and one visit refers to it.\<close>

definition duplicate_id_db :: database where
  "duplicate_id_db = \<lparr>has_moz_meta = True,
     moz_historyvisits = Some
       [\<lparr>V_id = 10, V_place_id = 1, V_visit_date = 0, V_visit_type = 1\<rparr>],
     moz_places = Some
       [\<lparr>P_id = 1, P_url = ''a'', P_title = Some ''A'', P_description = None,
          P_preview_image_url = None\<rparr>,
        \<lparr>P_id = 1, P_url = ''b'', P_title = Some ''B'', P_description = None,
          P_preview_image_url = None\<rparr>]\<rparr>"

text \<open>The sample world after a caller has opened a connection to the history store.\<close>

definition sample_world_conn :: world where
  "sample_world_conn = sample_world\<lparr>connections :=
     [\<lparr>conn_store = Database sample_db, closed = False, row_factory = Tuple_rows,
       text_factory = Default_str\<rparr>]\<rparr>"


text \<open>Sample data: two visits (pages 1 and 2) and metadata rows for page 1.\<close>

definition sample_date :: datetime where
  "sample_date = \<lparr>year = 2023, month = 11, day = 14, hour = 22, minute = 13, second = 20,
     microsecond = 0, tzinfo = UTC\<rparr>"

definition sample_visits :: "MozVisit list" where
  "sample_visits =
     [\<lparr>v_url = ''https://example.com/'', v_place_id = 1, v_visit_id = 10,
        v_visit_date = sample_date, v_visit_type = 1\<rparr>,
      \<lparr>v_url = ''https://example.org/a b'', v_place_id = 2, v_visit_id = 11,
        v_visit_date = sample_date, v_visit_type = 2\<rparr>]"

definition home_site :: MozPlace where
  "home_site = \<lparr>s_place_id = 1, s_title = Some ''Home'', s_description = None,
     s_preview_image = None\<rparr>"

definition old_site :: MozPlace where
  "old_site = \<lparr>s_place_id = 1, s_title = Some ''Old'', s_description = Some ''stale'',
     s_preview_image = None\<rparr>"

definition other_site :: MozPlace where
  "other_site = \<lparr>s_place_id = 7, s_title = None, s_description = Some ''elsewhere'',
     s_preview_image = None\<rparr>"


section \<open>Properties of the merger\<close>

lemma length_merge_loop: "length (merge_loop d vs) = length vs"
  by (induction vs) simp_all

lemma merge_loop_nth: "i < length vs \<Longrightarrow> merge_loop d vs ! i = merge_one d (vs ! i)"
  by (induction vs arbitrary: i) (simp_all add: nth_Cons split: nat.splits)

lemma merge_loop_map: "merge_loop d vs = map (merge_one d) vs"
  by (induction vs) simp_all

lemma event_merge_one: "event_of_visit (merge_one d v) = event_of_raw v"
  by (simp add: merge_one_def event_of_visit_def event_of_raw_def split: option.splits)

lemma build_site_dict_append:
  "build_site_dict d (xs @ [s]) = (build_site_dict d xs)(s_place_id s \<mapsto> s)"
  by (induction xs arbitrary: d) simp_all

lemma build_site_dict_last: "build_site_dict Map.empty site_list pid = last_with_id pid site_list"
proof (induction site_list rule: rev_induct)
  case Nil
  show ?case by (simp add: last_with_id_def)
next
  case (snoc s site_list)
  then show ?case by (simp add: build_site_dict_append last_with_id_def)
qed

lemma last_with_id_None: "last_with_id pid site_list = None \<longleftrightarrow> pid \<notin> s_place_id ` set site_list"
  by (auto simp: last_with_id_def find_None_iff)

lemma last_with_id_Some:
  "last_with_id pid site_list = Some s \<Longrightarrow> s \<in> set site_list \<and> s_place_id s = pid"
proof -
  assume "last_with_id pid site_list = Some s"
  then obtain i where i: "i < length (rev site_list)" "rev site_list ! i = s" "s_place_id s = pid"
    by (auto simp: last_with_id_def find_Some_iff)
  from i(1,2) have "s \<in> set (rev site_list)"
    using nth_mem by blast
  with i(3) show ?thesis by simp
qed

lemma build_site_dict_app:
  "build_site_dict d (xs @ ys) = build_site_dict (build_site_dict d xs) ys"
  by (induction xs arbitrary: d) simp_all

lemma build_site_dict_other:
  "\<forall>s\<in>set post. s_place_id s \<noteq> k \<Longrightarrow> build_site_dict d post k = d k"
  by (induction post arbitrary: d) simp_all

text \<open>
  C1.  For all sequences \<open>V\<close> of raw visits and \<open>M\<close> of raw site metadata, the merge has
  as many elements as \<open>V\<close>, and the visit events of the output (url, visit date, visit
  type), read in output order, are exactly the visit events of \<open>V\<close> in input order:
  nothing is dropped, duplicated or reordered.
\<close>

theorem C1_merge_one_visit_per_raw_visit:
  "length (single_db_merge V M) = length V \<and>
   map event_of_visit (single_db_merge V M) = map event_of_raw V"
  by (simp add: single_db_merge_def length_merge_loop merge_loop_map event_merge_one)

text \<open>
  C5.  The output at position \<open>i\<close> copies url, visit date and visit type from the
  \<open>i\<close>-th raw visit \<open>v\<close>.  When no metadata record has the page id of \<open>v\<close>, title,
  description and preview image are all null; when one has, the three fields are copied
  from a metadata record with that page id.  With an empty metadata sequence all three
  are null.
\<close>

theorem C5_merge_fields:
  assumes "i < length V"
  shows "url (single_db_merge V M ! i) = v_url (V ! i) \<and>
    visit_date (single_db_merge V M ! i) = v_visit_date (V ! i) \<and>
    visit_type (single_db_merge V M ! i) = v_visit_type (V ! i) \<and>
    (if v_place_id (V ! i) \<in> s_place_id ` set M
     then \<exists>m\<in>set M. s_place_id m = v_place_id (V ! i) \<and>
       title (single_db_merge V M ! i) = s_title m \<and>
       description (single_db_merge V M ! i) = s_description m \<and>
       preview_image (single_db_merge V M ! i) = s_preview_image m
     else title (single_db_merge V M ! i) = None \<and>
       description (single_db_merge V M ! i) = None \<and>
       preview_image (single_db_merge V M ! i) = None) \<and>
    title (single_db_merge V [] ! i) = None \<and>
    description (single_db_merge V [] ! i) = None \<and>
    preview_image (single_db_merge V [] ! i) = None"
proof -
  let ?d = "build_site_dict Map.empty M"
  let ?v = "V ! i"
  have out: "single_db_merge V M ! i = merge_one ?d ?v"
    using assms by (simp add: single_db_merge_def merge_loop_nth)
  have out0: "single_db_merge V [] ! i = merge_one Map.empty ?v"
    using assms by (simp add: single_db_merge_def merge_loop_nth)
  have copied: "url (merge_one ?d ?v) = v_url ?v \<and>
      visit_date (merge_one ?d ?v) = v_visit_date ?v \<and>
      visit_type (merge_one ?d ?v) = v_visit_type ?v"
    by (simp add: merge_one_def split: option.splits)
  have empty: "title (merge_one Map.empty ?v) = None \<and>
      description (merge_one Map.empty ?v) = None \<and>
      preview_image (merge_one Map.empty ?v) = None"
    by (simp add: merge_one_def)
  show ?thesis
  proof (cases "last_with_id (v_place_id ?v) M")
    case None
    then have "v_place_id ?v \<notin> s_place_id ` set M"
      by (simp add: last_with_id_None)
    moreover have "title (merge_one ?d ?v) = None \<and> description (merge_one ?d ?v) = None \<and>
        preview_image (merge_one ?d ?v) = None"
      using None by (simp add: merge_one_def build_site_dict_last)
    ultimately show ?thesis
      using out out0 copied empty by simp
  next
    case (Some m)
    then have m: "m \<in> set M" "s_place_id m = v_place_id ?v"
      using last_with_id_Some by blast+
    then have "v_place_id ?v \<in> s_place_id ` set M"
      by force
    moreover have "title (merge_one ?d ?v) = s_title m \<and>
        description (merge_one ?d ?v) = s_description m \<and>
        preview_image (merge_one ?d ?v) = s_preview_image m"
      using Some by (simp add: merge_one_def build_site_dict_last)
    ultimately show ?thesis
      using out out0 copied empty m by auto
  qed
qed

theorem C5_merge_fields_witness:
  "(1::nat) < length sample_visits \<and>
   url (single_db_merge sample_visits [home_site] ! 1) = ''https://example.org/a b'' \<and>
   title (single_db_merge sample_visits [home_site] ! 1) = None \<and>
   description (single_db_merge sample_visits [home_site] ! 1) = None \<and>
   preview_image (single_db_merge sample_visits [home_site] ! 1) = None"
  using C5_merge_fields [of 1 sample_visits "[home_site]"]
  by (simp add: sample_visits_def home_site_def)

text \<open>
  C6.  When several metadata records share a page id, every visit with that page id is
  resolved with the last of them in the order of the metadata sequence: if \<open>m\<close> occurs in
  \<open>M\<close> with no record of the same page id after it, the lookup structure maps the page
  id to \<open>m\<close> (whatever precedes \<open>m\<close>), and a visit with that page id gets the three
  fields of \<open>m\<close>.
\<close>

theorem C6_last_seen_wins:
  assumes "i < length V"
    and "M = pre @ m # post"
    and "\<forall>s\<in>set post. s_place_id s \<noteq> s_place_id m"
    and "v_place_id (V ! i) = s_place_id m"
  shows "build_site_dict Map.empty M (s_place_id m) = Some m \<and>
    title (single_db_merge V M ! i) = s_title m \<and>
    description (single_db_merge V M ! i) = s_description m \<and>
    preview_image (single_db_merge V M ! i) = s_preview_image m"
proof -
  have "build_site_dict Map.empty M (s_place_id m) =
      build_site_dict ((build_site_dict Map.empty pre)(s_place_id m \<mapsto> m)) post (s_place_id m)"
    using assms(2) by (simp add: build_site_dict_app)
  also have "\<dots> = Some m"
    using assms(3) by (simp add: build_site_dict_other)
  finally have d: "build_site_dict Map.empty M (s_place_id m) = Some m" .
  have "single_db_merge V M ! i = merge_one (build_site_dict Map.empty M) (V ! i)"
    using assms(1) by (simp add: single_db_merge_def merge_loop_nth)
  with d assms(4) show ?thesis
    by (simp add: merge_one_def)
qed

theorem C6_last_seen_wins_witness:
  "(0::nat) < length sample_visits \<and>
   [old_site, other_site, home_site, other_site] = [old_site, other_site] @ home_site # [other_site] \<and>
   s_place_id other_site \<noteq> s_place_id home_site \<and>
   v_place_id (sample_visits ! 0) = s_place_id home_site \<and>
   title (single_db_merge sample_visits [old_site, other_site, home_site, other_site] ! 0)
     = Some ''Home'' \<and>
   description (single_db_merge sample_visits [old_site, other_site, home_site, other_site] ! 0)
     = None"
  using C6_last_seen_wins [of 0 sample_visits "[old_site, other_site, home_site, other_site]"
      "[old_site, other_site]" home_site "[other_site]"]
  by (simp add: sample_visits_def home_site_def other_site_def)


section \<open>Properties of the source reader\<close>

lemma connections_emit [simp]: "connections (emit e w) = connections w"
  and cache_emit [simp]: "sanity_check_cache (emit e w) = sanity_check_cache w"
  and files_emit [simp]: "files (emit e w) = files w"
  and expand_emit [simp]: "expand_path (emit e w) = expand_path w"
  and events_emit [simp]: "events (emit e w) = events w @ [e]"
  by (simp_all add: emit_def)

lemma left_open_same [simp]: "connections w' = connections w \<Longrightarrow> left_open w w' = []"
  by (simp add: left_open_def opened_between_def)

lemma left_open_one_closed:
  "connections w' = connections w @ [x] \<Longrightarrow> closed x \<Longrightarrow> left_open w w' = []"
  by (simp add: left_open_def opened_between_def)

lemma sanity_check_body_connections:
  "connections (snd (sanity_check_body p w)) = connections w \<or>
   (\<exists>x. connections (snd (sanity_check_body p w)) = connections w @ [x] \<and> closed x)"
  by (auto simp: sanity_check_body_def sqlite3_connect_def conn_execute_def conn_close_def Let_def
      split: store.splits sum.splits prod.splits if_splits)

lemma sanity_check_connections:
  "connections (snd (sanity_check p w)) = connections w \<or>
   (\<exists>x. connections (snd (sanity_check p w)) = connections w @ [x] \<and> closed x)"
  using sanity_check_body_connections [of p w]
  by (auto simp: sanity_check_def split: prod.splits sum.splits)

lemma sanity_check_body_events:
  "events (snd (sanity_check_body p w)) = events w \<or>
   (\<exists>mid. events (snd (sanity_check_body p w)) =
      events w @ Connect (length (connections w)) #
        Execute (length (connections w)) (sql META_QUERY) # mid @ [Close (length (connections w))])"
  by (auto simp: sanity_check_body_def sqlite3_connect_def conn_execute_def conn_close_def Let_def
      split: store.splits sum.splits prod.splits if_splits)

lemma sanity_check_events:
  "events (snd (sanity_check p w)) = events w \<or>
   (\<exists>mid. events (snd (sanity_check p w)) =
      events w @ Connect (length (connections w)) #
        Execute (length (connections w)) (sql META_QUERY) # mid @ [Close (length (connections w))])"
  using sanity_check_body_events [of p w]
  by (auto simp: sanity_check_def split: prod.splits sum.splits)

text \<open>
  C10.  The probe of \<^verbatim>\<open>_sanity_check\<close> closes the connection it opened on every exit
  path.  Whatever the world and the path, and whether the call returns or raises, in
  the world the call leaves behind no connection made during the call is open, the
  connections that existed before are as they were, and if the call connected at all,
  the events of the call begin with that connect and the probe and end with the close
  of the same connection.
\<close>

theorem C10_probe_connection_closed:
  "left_open w (snd (sanity_check sqlite_path w)) = [] \<and>
   take (length (connections w)) (connections (snd (sanity_check sqlite_path w))) = connections w \<and>
   (events (snd (sanity_check sqlite_path w)) = events w \<or>
    (\<exists>mid. events (snd (sanity_check sqlite_path w)) =
       events w @ Connect (length (connections w)) #
         Execute (length (connections w)) (sql META_QUERY) # mid @ [Close (length (connections w))]))"
  using sanity_check_connections [of sqlite_path w] sanity_check_events [of sqlite_path w]
  by (auto simp: left_open_one_closed)





lemma probe_count_emit [simp]:
  "probe_count (emit e w) = probe_count w + (if is_probe e then 1 else 0)"
  by (simp add: probe_count_def)

lemma probe_count_upd [simp]:
  "probe_count (w\<lparr>connections := cs\<rparr>) = probe_count w"
  "probe_count (w\<lparr>sanity_check_cache := ch\<rparr>) = probe_count w"
  by (simp_all add: probe_count_def)



lemma sql_neq [simp]:
  "sql (q :: 'r query) \<noteq> sql META_QUERY \<Longrightarrow> \<not> is_probe (Execute c (sql q))"
  by simp

lemma list_of_NotStarted:
  "list_of mk (NotStarted sqlite_path q) w =
     (case execute_query_start sqlite_path q w of
        (Inl e, w1) \<Rightarrow> (Inl e, w1)
      | (Inr (c, in_with, rows), w1) \<Rightarrow> list_of mk (Suspended c in_with rows) w1)"
proof (cases "execute_query_start sqlite_path q w")
  case (Pair r w1)
  show ?thesis
  proof (cases r)
    case (Inl e)
    with Pair show ?thesis
      by (simp add: list_of.simps [of mk "NotStarted sqlite_path q"] for_rows_next_def
          execute_query_next_def)
  next
    case (Inr t)
    obtain c in_with rows where t: "t = (c, in_with, rows)"
      by (cases t) auto
    with Pair Inr show ?thesis
      by (simp add: list_of.simps [of mk "NotStarted sqlite_path q"]
          list_of.simps [of mk "Suspended c in_with rows"] for_rows_next_def
          execute_query_next_def)
  qed
qed

lemma list_of_Suspended:
  "list_of mk (Suspended c in_with rows) w =
     (collect mk rows, if in_with then conn_exit c (isl (collect mk rows)) w else w)"
proof (induction rows)
  case Nil
  show ?case
    by (simp add: list_of.simps [of mk "Suspended c in_with []"] for_rows_next_def
        execute_query_next_def execute_query_resume_def)
next
  case (Cons row rows)
  show ?case
  proof (cases "mk row")
    case (Inl e)
    then show ?thesis
      by (simp add: list_of.simps [of mk "Suspended c in_with (row # rows)"] for_rows_next_def
          execute_query_next_def execute_query_resume_def execute_query_close_def)
  next
    case (Inr x)
    then show ?thesis
      using Cons.IH
      by (simp add: list_of.simps [of mk "Suspended c in_with (row # rows)"] for_rows_next_def
          execute_query_next_def execute_query_resume_def split: sum.splits)
  qed
qed

lemma list_of_Finished: "list_of mk Finished w = (Inr [], w)"
  by (simp add: list_of.simps [of mk Finished] for_rows_next_def execute_query_next_def)

lemma connections_conn_exit [simp]: "connections (conn_exit c b w) = connections w"
  by (simp add: conn_exit_def)

lemma connections_list_of_Suspended [simp]:
  "connections (snd (list_of mk (Suspended c in_with rows) w)) = connections w"
  by (simp add: list_of_Suspended)

lemma connections_conn_execute [simp]:
  "connections (snd (conn_execute c q w)) = connections w"
  by (simp add: conn_execute_def Let_def split: store.splits)

lemma execute_conn_connections:
  "connections (snd (execute_conn c q w)) =
     (connections w)[c := (connections w ! c)\<lparr>row_factory := Row, text_factory := Decode_errors_ignore\<rparr>]"
proof (cases "c < length (connections w)")
  case True
  then show ?thesis
    by (simp add: execute_conn_def set_row_factory_def set_text_factory_def)
next
  case False
  then have "length (connections w) \<le> c"
    by simp
  then show ?thesis
    by (simp add: execute_conn_def set_row_factory_def set_text_factory_def list_update_beyond)
qed

lemma list_of_connection_world:
  "snd (list_of mk (NotStarted (IsConnection c) q) w) = snd (execute_conn c q w)"
  by (simp add: list_of_NotStarted list_of_Suspended execute_query_start_def
      split: prod.splits sum.splits)

lemma next_connection_world:
  "snd (snd (execute_query_next (NotStarted (IsConnection c) q) w)) = snd (execute_conn c q w)"
  by (simp add: execute_query_next_def execute_query_start_def execute_query_resume_def
      split: prod.splits sum.splits list.splits)

text \<open>
  C9.  A query on a connection the caller supplies changes that connection: once the
  produced sequence has been started, and still after it has been iterated to its end
  (or to an exception), the connection's \<^verbatim>\<open>row_factory\<close> is \<^verbatim>\<open>sqlite3.Row\<close> and its
  \<^verbatim>\<open>text_factory\<close> is the decoder that ignores undecodable bytes; the connection is
  neither closed nor reopened.
\<close>

theorem C9_caller_connection_mutated:
  assumes "c < length (connections w)"
  shows "row_factory (connections (snd (list_of mk (NotStarted (IsConnection c) q) w)) ! c) = Row \<and>
    text_factory (connections (snd (list_of mk (NotStarted (IsConnection c) q) w)) ! c) =
      Decode_errors_ignore \<and>
    closed (connections (snd (list_of mk (NotStarted (IsConnection c) q) w)) ! c) =
      closed (connections w ! c) \<and>
    row_factory (connections (snd (snd (execute_query_next (NotStarted (IsConnection c) q) w))) ! c) = Row \<and>
    text_factory (connections (snd (snd (execute_query_next (NotStarted (IsConnection c) q) w))) ! c) =
      Decode_errors_ignore"
  using assms
  by (simp add: list_of_connection_world next_connection_world execute_conn_connections)

theorem C9_caller_connection_mutated_witness:
  "(0::nat) < length (connections sample_world_conn) \<and>
   row_factory (connections sample_world_conn ! 0) = Tuple_rows \<and>
   text_factory (connections sample_world_conn ! 0) = Default_str \<and>
   row_factory (connections (snd (read_visits id (IsConnection 0) sample_world_conn)) ! 0) = Row \<and>
   text_factory (connections (snd (read_visits id (IsConnection 0) sample_world_conn)) ! 0) =
      Decode_errors_ignore \<and>
   closed (connections (snd (read_visits id (IsConnection 0) sample_world_conn)) ! 0) = False"
  using C9_caller_connection_mutated [of 0 sample_world_conn "make_Visit id" COMBINED_QUERY]
  by (simp add: read_visits_def sample_world_conn_def sample_world_def)

lemma sql_queries_not_probe [simp]:
  "sql VISIT_QUERY \<noteq> sql META_QUERY"
  "sql SITEDATA_QUERY \<noteq> sql META_QUERY"
  "sql COMBINED_QUERY \<noteq> sql META_QUERY"
  by (simp_all add: VISIT_QUERY_def SITEDATA_QUERY_def COMBINED_QUERY_def META_QUERY_def)

lemma probe_count_conn_exit [simp]: "probe_count (conn_exit c b w) = probe_count w"
  by (simp add: conn_exit_def)



lemma sample_eval:
  "sample_expand_path (Str s) = s"
  "sample_files ''places.sqlite'' = Database sample_db"
  "sample_files ''no_meta.sqlite'' = Database (sample_db\<lparr>has_moz_meta := False\<rparr>)"
  "sample_files ''meta_only.sqlite'' =
     Database \<lparr>has_moz_meta = True, moz_historyvisits = None, moz_places = None\<rparr>"
  "has_moz_meta sample_db"
  by (simp_all add: sample_expand_path_def sample_files_def sample_db_def)

lemma sanity_check_no_meta:
  assumes "files w (expand_path w p) = Database db" and "\<not> has_moz_meta db"
    and "p \<notin> sanity_check_cache w"
  shows "sanity_check p w =
    (Inl (no_such_table ''moz_meta''),
     w\<lparr>connections := connections w @
          [\<lparr>conn_store = Database db, closed = True, row_factory = Tuple_rows,
            text_factory = Default_str\<rparr>],
        events := events w @
          [Connect (length (connections w)), Execute (length (connections w)) (sql META_QUERY),
           Log_error, Log_error, Close (length (connections w))]\<rparr>)"
  using assms
  by (simp add: sanity_check_def sanity_check_body_def sqlite3_connect_def conn_execute_def
      conn_close_def emit_def Let_def META_QUERY_def no_such_table_def)

lemma sanity_check_with_meta:
  assumes "files w (expand_path w p) = Database db" and "has_moz_meta db"
    and "p \<notin> sanity_check_cache w"
  shows "sanity_check p w =
    (Inr (),
     w\<lparr>connections := connections w @
          [\<lparr>conn_store = Database db, closed = True, row_factory = Tuple_rows,
            text_factory = Default_str\<rparr>],
        events := events w @
          [Connect (length (connections w)), Execute (length (connections w)) (sql META_QUERY),
           Close (length (connections w))],
        sanity_check_cache := insert p (sanity_check_cache w)\<rparr>)"
  using assms
  by (simp add: sanity_check_def sanity_check_body_def sqlite3_connect_def conn_execute_def
      conn_close_def emit_def Let_def META_QUERY_def)



lemma cache_sound_not_cached:
  assumes "cache_sound w" and "files w (expand_path w p) = Database db" and "\<not> has_moz_meta db"
  shows "p \<notin> sanity_check_cache w"
  using assms by (auto simp: cache_sound_def validated_def)

text \<open>
  C7.  When the source is a path to a store that opens but has no \<^verbatim>\<open>moz_meta\<close> table,
  the first \<^verbatim>\<open>next\<close> of any query on it raises the error of the probe (``no such
  table: moz_meta'', an \<^verbatim>\<open>OperationalError\<close>, which is a \<^verbatim>\<open>sqlite3.DatabaseError\<close>: the
  schema error) and ends the generator, so no row is produced and \<^verbatim>\<open>list\<close> gets the
  exception.  The events of the whole query are one connect, one probe, the two log
  calls and the close: the probe is not tried again and the query itself is never
  executed.  The path is not cached as valid.
\<close>

theorem C7_missing_marker_table:
  assumes "files w (expand_path w p) = Database db" and "\<not> has_moz_meta db"
    and "cache_sound w"
  shows "fst (execute_query_next (NotStarted (IsPathIsh p) q) w) = Raise (no_such_table ''moz_meta'') \<and>
    fst (snd (execute_query_next (NotStarted (IsPathIsh p) q) w)) = Finished \<and>
    fst (list_of mk (NotStarted (IsPathIsh p) q) w) = Inl (no_such_table ''moz_meta'') \<and>
    snd (list_of mk (NotStarted (IsPathIsh p) q) w) =
      snd (snd (execute_query_next (NotStarted (IsPathIsh p) q) w)) \<and>
    events (snd (list_of mk (NotStarted (IsPathIsh p) q) w)) =
      events w @
        [Connect (length (connections w)), Execute (length (connections w)) (sql META_QUERY),
         Log_error, Log_error, Close (length (connections w))] \<and>
    probe_count (snd (list_of mk (NotStarted (IsPathIsh p) q) w)) = Suc (probe_count w) \<and>
    left_open w (snd (list_of mk (NotStarted (IsPathIsh p) q) w)) = [] \<and>
    p \<notin> sanity_check_cache (snd (list_of mk (NotStarted (IsPathIsh p) q) w))"
proof -
  have n: "p \<notin> sanity_check_cache w"
    using assms cache_sound_not_cached by blast
  note sc = sanity_check_no_meta [OF assms(1,2) n]
  have start: "execute_query_start (IsPathIsh p) q w =
      (Inl (no_such_table ''moz_meta''), snd (sanity_check p w))"
    by (simp add: execute_query_start_def sc)
  have nxt: "execute_query_next (NotStarted (IsPathIsh p) q) w =
      (Raise (no_such_table ''moz_meta''), Finished, snd (sanity_check p w))"
    by (simp add: execute_query_next_def start)
  have lst: "list_of mk (NotStarted (IsPathIsh p) q) w =
      (Inl (no_such_table ''moz_meta''), snd (sanity_check p w))"
    by (simp add: list_of_NotStarted start)
  have pc: "probe_count (snd (sanity_check p w)) = Suc (probe_count w)"
    by (simp add: sc probe_count_def)
  have lo: "left_open w (snd (sanity_check p w)) = []"
    by (simp add: sc left_open_def opened_between_def)
  show ?thesis
    using n pc lo by (simp add: nxt lst) (simp add: sc)
qed

theorem C7_missing_marker_table_witness:
  "sample_files (sample_expand_path (Str ''no_meta.sqlite'')) =
     Database (sample_db\<lparr>has_moz_meta := False\<rparr>) \<and>
   \<not> has_moz_meta (sample_db\<lparr>has_moz_meta := False\<rparr>) \<and>
   cache_sound (sample_world\<lparr>sanity_check_cache := {Str ''places.sqlite''}\<rparr>) \<and>
   fst (read_visits id (IsPathIsh (Str ''no_meta.sqlite''))
         (sample_world\<lparr>sanity_check_cache := {Str ''places.sqlite''}\<rparr>)) =
     Inl (no_such_table ''moz_meta'') \<and>
   events (snd (read_visits id (IsPathIsh (Str ''no_meta.sqlite''))
         (sample_world\<lparr>sanity_check_cache := {Str ''places.sqlite''}\<rparr>))) =
     [Connect 0, Execute 0 (sql META_QUERY), Log_error, Log_error, Close 0]"
proof -
  have f: "files (sample_world\<lparr>sanity_check_cache := {Str ''places.sqlite''}\<rparr>)
      (expand_path (sample_world\<lparr>sanity_check_cache := {Str ''places.sqlite''}\<rparr>)
        (Str ''no_meta.sqlite'')) = Database (sample_db\<lparr>has_moz_meta := False\<rparr>)"
    by (simp add: sample_world_def sample_eval)
  have m: "\<not> has_moz_meta (sample_db\<lparr>has_moz_meta := False\<rparr>)"
    by simp
  have s: "cache_sound (sample_world\<lparr>sanity_check_cache := {Str ''places.sqlite''}\<rparr>)"
    by (simp add: cache_sound_def validated_def sample_world_def sample_eval)
  have e: "events (sample_world\<lparr>sanity_check_cache := {Str ''places.sqlite''}\<rparr>) = []"
    "connections (sample_world\<lparr>sanity_check_cache := {Str ''places.sqlite''}\<rparr>) = []"
    by (simp_all add: sample_world_def)
  note T = C7_missing_marker_table [OF f m s, of COMBINED_QUERY "make_Visit id"]
  from T have r: "fst (list_of (make_Visit id)
      (NotStarted (IsPathIsh (Str ''no_meta.sqlite'')) COMBINED_QUERY)
      (sample_world\<lparr>sanity_check_cache := {Str ''places.sqlite''}\<rparr>)) =
      Inl (no_such_table ''moz_meta'')"
    by blast
  from T have "events (snd (list_of (make_Visit id)
      (NotStarted (IsPathIsh (Str ''no_meta.sqlite'')) COMBINED_QUERY)
      (sample_world\<lparr>sanity_check_cache := {Str ''places.sqlite''}\<rparr>))) =
      events (sample_world\<lparr>sanity_check_cache := {Str ''places.sqlite''}\<rparr>) @
        [Connect (length (connections (sample_world\<lparr>sanity_check_cache := {Str ''places.sqlite''}\<rparr>))),
         Execute (length (connections (sample_world\<lparr>sanity_check_cache := {Str ''places.sqlite''}\<rparr>)))
           (sql META_QUERY),
         Log_error, Log_error,
         Close (length (connections (sample_world\<lparr>sanity_check_cache := {Str ''places.sqlite''}\<rparr>)))]"
    by blast
  then have ev: "events (snd (list_of (make_Visit id)
      (NotStarted (IsPathIsh (Str ''no_meta.sqlite'')) COMBINED_QUERY)
      (sample_world\<lparr>sanity_check_cache := {Str ''places.sqlite''}\<rparr>))) =
      [Connect 0, Execute 0 (sql META_QUERY), Log_error, Log_error, Close 0]"
    by (simp only: e append_Nil list.size)
  show ?thesis
    using s r ev by (simp add: read_visits_def sample_eval)
qed

lemma cache_sound_sanity_check: "cache_sound w \<Longrightarrow> cache_sound (snd (sanity_check p w))"
  by (auto simp: cache_sound_def validated_def sanity_check_def sanity_check_body_def
      sqlite3_connect_def conn_execute_def conn_close_def emit_def Let_def META_QUERY_def
      split: store.splits sum.splits prod.splits if_splits)

lemma list_update_append2 [simp]: "(xs @ [a, b])[Suc (length xs) := c] = xs @ [a, c]"
  by (simp add: list_update_append)

lemma execute_query_start_path:
  assumes "files w (expand_path w p) = Database db" and "has_moz_meta db"
    and "p \<notin> sanity_check_cache w"
  shows "execute_query_start (IsPathIsh p) q w =
    (case run q db of
       Inl e \<Rightarrow> (Inl e,
         w\<lparr>connections := connections w @
              [\<lparr>conn_store = Database db, closed = True, row_factory = Tuple_rows,
                text_factory = Default_str\<rparr>,
               \<lparr>conn_store = Database db, closed = False, row_factory = Row,
                text_factory = Decode_errors_ignore\<rparr>],
            events := events w @
              [Connect (length (connections w)),
               Execute (length (connections w)) (sql META_QUERY),
               Close (length (connections w)),
               Connect (Suc (length (connections w))),
               Execute (Suc (length (connections w))) (sql q),
               Rollback (Suc (length (connections w)))],
            sanity_check_cache := insert p (sanity_check_cache w)\<rparr>)
     | Inr rows \<Rightarrow> (Inr (Suc (length (connections w)), True, rows),
         w\<lparr>connections := connections w @
              [\<lparr>conn_store = Database db, closed = True, row_factory = Tuple_rows,
                text_factory = Default_str\<rparr>,
               \<lparr>conn_store = Database db, closed = False, row_factory = Row,
                text_factory = Decode_errors_ignore\<rparr>],
            events := events w @
              [Connect (length (connections w)),
               Execute (length (connections w)) (sql META_QUERY),
               Close (length (connections w)),
               Connect (Suc (length (connections w))),
               Execute (Suc (length (connections w))) (sql q)],
            sanity_check_cache := insert p (sanity_check_cache w)\<rparr>))"
  using assms
  by (simp add: execute_query_start_def sanity_check_with_meta [OF assms] sqlite3_connect_def
      execute_conn_def conn_execute_def set_row_factory_def set_text_factory_def conn_exit_def
      emit_def Let_def nth_append split: sum.splits)


lemma true_div_sample: "true_div 1700000000000000 1000000 = (7130316800000000, - 22)"
  by (simp add: true_div_def bit_length.simps rne_div_def Let_def)

lemma timeval_sample: "timestamp_to_timeval (7130316800000000, - 22) = (1700000000, 0)"
  by (simp add: timestamp_to_timeval_def modf_def round_double_def round_half_even_def
      bit_length.simps rne_div_def Let_def)

lemma civil_sample: "civil_from_days 19675 = (2023, 11, 14)"
  unfolding civil_from_days_def Let_def by simp

lemma civil_zero: "civil_from_days 0 = (1970, 1, 1)"
  unfolding civil_from_days_def Let_def by simp

lemma fromtimestamp_sample:
  "fromtimestamp_utc (true_div 1700000000000000 1000000) = Inr sample_date"
  by (simp add: true_div_sample fromtimestamp_utc_def timeval_sample civil_sample sample_date_def)

lemma timeval_zero: "timestamp_to_timeval (true_div 0 1000000) = (0, 0)"
  by (simp add: true_div_def timestamp_to_timeval_def modf_def round_double_def
      round_half_even_def bit_length.simps)

lemma fromtimestamp_zero:
  "fromtimestamp_utc (true_div 0 1000000) =
     Inr \<lparr>year = 1970, month = 1, day = 1, hour = 0, minute = 0, second = 0, microsecond = 0,
       tzinfo = UTC\<rparr>"
  by (simp add: fromtimestamp_utc_def timeval_zero civil_zero)

lemma run_COMBINED_sample:
  "run COMBINED_QUERY sample_db =
     Inr [(''https://example.com/'', 1700000000000000, 1, Some ''Home'', None, None),
          (''https://example.org/a%20b'', 0, 2, None, None, None)]"
  by (simp add: COMBINED_QUERY_def from_V_P_def visits_join_def sample_db_def)

lemma collect_COMBINED_sample:
  "collect (make_Visit unquote)
     [(''https://example.com/'', 1700000000000000, 1, Some ''Home'', None, None),
      (''https://example.org/a%20b'', 0, 2, None, None, None)] =
   Inr [\<lparr>url = unquote ''https://example.com/'', visit_date = sample_date, visit_type = 1,
          title = Some ''Home'', description = None, preview_image = None\<rparr>,
        \<lparr>url = unquote ''https://example.org/a%20b'',
          visit_date = \<lparr>year = 1970, month = 1, day = 1, hour = 0, minute = 0, second = 0,
            microsecond = 0, tzinfo = UTC\<rparr>,
          visit_type = 2, title = None, description = None, preview_image = None\<rparr>]"
  by (simp add: make_Visit_def fromtimestamp_sample fromtimestamp_zero)

lemma read_visits_sample:
  "read_visits unquote (IsPathIsh (Str ''places.sqlite'')) sample_world =
    (Inr [\<lparr>url = unquote ''https://example.com/'', visit_date = sample_date, visit_type = 1,
          title = Some ''Home'', description = None, preview_image = None\<rparr>,
        \<lparr>url = unquote ''https://example.org/a%20b'',
          visit_date = \<lparr>year = 1970, month = 1, day = 1, hour = 0, minute = 0, second = 0,
            microsecond = 0, tzinfo = UTC\<rparr>,
          visit_type = 2, title = None, description = None, preview_image = None\<rparr>],
     sample_world\<lparr>connections :=
          [\<lparr>conn_store = Database sample_db, closed = True, row_factory = Tuple_rows,
            text_factory = Default_str\<rparr>,
           \<lparr>conn_store = Database sample_db, closed = False, row_factory = Row,
            text_factory = Decode_errors_ignore\<rparr>],
        events :=
          [Connect 0, Execute 0 (sql META_QUERY), Close 0, Connect 1,
           Execute 1 (sql COMBINED_QUERY), Commit 1],
        sanity_check_cache := {Str ''places.sqlite''}\<rparr>)"
proof -
  have f: "files sample_world (expand_path sample_world (Str ''places.sqlite'')) = Database sample_db"
    and m: "has_moz_meta sample_db"
    and n: "Str ''places.sqlite'' \<notin> sanity_check_cache sample_world"
    by (simp_all add: sample_world_def sample_eval)
  show ?thesis
    unfolding read_visits_def list_of_NotStarted execute_query_start_path [OF f m n]
    by (simp add: run_COMBINED_sample list_of_Suspended collect_COMBINED_sample conn_exit_def
        emit_def sample_world_def del: collect.simps)
qed

lemma execute_query_path_connection_open:
  assumes "execute_query_start (IsPathIsh p) q w = (Inr (c, in_with, rows), w1)"
  shows "in_with \<and> length (connections w) \<le> c \<and> c < length (connections w1) \<and>
    \<not> closed (connections w1 ! c)"
  using assms
  by (auto simp: execute_query_start_def sanity_check_def sanity_check_body_def sqlite3_connect_def
      execute_conn_def conn_execute_def conn_close_def set_row_factory_def set_text_factory_def
      emit_def Let_def nth_append
      split: prod.splits sum.splits store.splits if_splits)

lemma execute_query_path_never_closes:
  assumes "execute_query_start (IsPathIsh p) q w = (Inr (c, in_with, rows), w1)"
  shows "\<not> closed (connections (snd (list_of mk (Suspended c in_with rows) w1)) ! c) \<and>
    \<not> closed (connections (snd (execute_query_close (Suspended c in_with rest) w1)) ! c)"
  using execute_query_path_connection_open [OF assms]
  by (simp add: execute_query_close_def)

text \<open>
  C3 on the sample world, for a path to the history store and to the database that has
  only the marker table.  The reader makes two connections: connection 0 for the probe,
  which is closed, and connection 1 for the query.  Connection 1 is left open on each
  exit path: when the sequence is exhausted (the \<^verbatim>\<open>with\<close> block ends by a commit), when
  the consumer stops after the first row and the generator is closed (a rollback), and
  when \<^verbatim>\<open>execute\<close> raises inside the block (a rollback).  No event closes connection 1.
\<close>

theorem C3_query_connection_left_open:
  "left_open sample_world
     (snd (read_visits unquote (IsPathIsh (Str ''places.sqlite'')) sample_world)) = [1] \<and>
   events (snd (read_visits unquote (IsPathIsh (Str ''places.sqlite'')) sample_world)) =
     [Connect 0, Execute 0 (sql META_QUERY), Close 0, Connect 1,
      Execute 1 (sql COMBINED_QUERY), Commit 1] \<and>
   fst (execute_query_next (NotStarted (IsPathIsh (Str ''places.sqlite'')) COMBINED_QUERY)
          sample_world) =
     Yield (''https://example.com/'', 1700000000000000, 1, Some ''Home'', None, None) \<and>
   left_open sample_world
     (snd (execute_query_close
        (fst (snd (execute_query_next
           (NotStarted (IsPathIsh (Str ''places.sqlite'')) COMBINED_QUERY) sample_world)))
        (snd (snd (execute_query_next
           (NotStarted (IsPathIsh (Str ''places.sqlite'')) COMBINED_QUERY) sample_world))))) = [1] \<and>
   events
     (snd (execute_query_close
        (fst (snd (execute_query_next
           (NotStarted (IsPathIsh (Str ''places.sqlite'')) COMBINED_QUERY) sample_world)))
        (snd (snd (execute_query_next
           (NotStarted (IsPathIsh (Str ''places.sqlite'')) COMBINED_QUERY) sample_world))))) =
     [Connect 0, Execute 0 (sql META_QUERY), Close 0, Connect 1,
      Execute 1 (sql COMBINED_QUERY), Rollback 1] \<and>
   fst (read_visits unquote (IsPathIsh (Str ''meta_only.sqlite'')) sample_world) =
     Inl (no_such_table ''moz_historyvisits'') \<and>
   left_open sample_world
     (snd (read_visits unquote (IsPathIsh (Str ''meta_only.sqlite'')) sample_world)) = [1] \<and>
   events (snd (read_visits unquote (IsPathIsh (Str ''meta_only.sqlite'')) sample_world)) =
     [Connect 0, Execute 0 (sql META_QUERY), Close 0, Connect 1,
      Execute 1 (sql COMBINED_QUERY), Rollback 1]"
proof -
  have f: "files sample_world (expand_path sample_world (Str ''places.sqlite'')) = Database sample_db"
    and m: "has_moz_meta sample_db"
    and n: "Str ''places.sqlite'' \<notin> sanity_check_cache sample_world"
    by (simp_all add: sample_world_def sample_eval)
  have f2: "files sample_world (expand_path sample_world (Str ''meta_only.sqlite'')) =
      Database \<lparr>has_moz_meta = True, moz_historyvisits = None, moz_places = None\<rparr>"
    and n2: "Str ''meta_only.sqlite'' \<notin> sanity_check_cache sample_world"
    by (simp_all add: sample_world_def sample_eval)
  have m2: "has_moz_meta \<lparr>has_moz_meta = True, moz_historyvisits = None, moz_places = None\<rparr>"
    by simp
  have c0: "connections sample_world = []" "events sample_world = []"
    by (simp_all add: sample_world_def)
  have exhausted: "left_open sample_world
       (snd (read_visits unquote (IsPathIsh (Str ''places.sqlite'')) sample_world)) = [1] \<and>
     events (snd (read_visits unquote (IsPathIsh (Str ''places.sqlite'')) sample_world)) =
       [Connect 0, Execute 0 (sql META_QUERY), Close 0, Connect 1,
        Execute 1 (sql COMBINED_QUERY), Commit 1]"
    by (simp add: read_visits_sample left_open_def opened_between_def c0)
  have nxt: "execute_query_next (NotStarted (IsPathIsh (Str ''places.sqlite'')) COMBINED_QUERY)
       sample_world =
     (Yield (''https://example.com/'', 1700000000000000, 1, Some ''Home'', None, None),
      Suspended 1 True [(''https://example.org/a%20b'', 0, 2, None, None, None)],
      sample_world\<lparr>connections :=
          [\<lparr>conn_store = Database sample_db, closed = True, row_factory = Tuple_rows,
            text_factory = Default_str\<rparr>,
           \<lparr>conn_store = Database sample_db, closed = False, row_factory = Row,
            text_factory = Decode_errors_ignore\<rparr>],
        events :=
          [Connect 0, Execute 0 (sql META_QUERY), Close 0, Connect 1,
           Execute 1 (sql COMBINED_QUERY)],
        sanity_check_cache := {Str ''places.sqlite''}\<rparr>)"
    unfolding execute_query_next_def gen.case execute_query_start_path [OF f m n]
    by (simp add: run_COMBINED_sample execute_query_resume_def c0 sample_world_def)
  have early: "left_open sample_world
       (snd (execute_query_close
          (fst (snd (execute_query_next
             (NotStarted (IsPathIsh (Str ''places.sqlite'')) COMBINED_QUERY) sample_world)))
          (snd (snd (execute_query_next
             (NotStarted (IsPathIsh (Str ''places.sqlite'')) COMBINED_QUERY) sample_world))))) = [1] \<and>
     events
       (snd (execute_query_close
          (fst (snd (execute_query_next
             (NotStarted (IsPathIsh (Str ''places.sqlite'')) COMBINED_QUERY) sample_world)))
          (snd (snd (execute_query_next
             (NotStarted (IsPathIsh (Str ''places.sqlite'')) COMBINED_QUERY) sample_world))))) =
       [Connect 0, Execute 0 (sql META_QUERY), Close 0, Connect 1,
        Execute 1 (sql COMBINED_QUERY), Rollback 1]"
    by (simp add: nxt execute_query_close_def conn_exit_def emit_def left_open_def
        opened_between_def c0)
  have run2: "run COMBINED_QUERY \<lparr>has_moz_meta = True, moz_historyvisits = None, moz_places = None\<rparr> =
      Inl (no_such_table ''moz_historyvisits'')"
    by (simp add: COMBINED_QUERY_def from_V_P_def)
  have failed: "fst (read_visits unquote (IsPathIsh (Str ''meta_only.sqlite'')) sample_world) =
       Inl (no_such_table ''moz_historyvisits'') \<and>
     left_open sample_world
       (snd (read_visits unquote (IsPathIsh (Str ''meta_only.sqlite'')) sample_world)) = [1] \<and>
     events (snd (read_visits unquote (IsPathIsh (Str ''meta_only.sqlite'')) sample_world)) =
       [Connect 0, Execute 0 (sql META_QUERY), Close 0, Connect 1,
        Execute 1 (sql COMBINED_QUERY), Rollback 1]"
    unfolding read_visits_def list_of_NotStarted execute_query_start_path [OF f2 m2 n2]
    by (simp add: run2 left_open_def opened_between_def c0)
  from exhausted early failed show ?thesis
    by (simp add: nxt)
qed

section \<open>The combined query and the merge\<close>



lemma s_place_id_MozPlace_of [simp]: "s_place_id (MozPlace_of unquote p) = P_id p"
  by (simp add: MozPlace_of_def)
















lemma frame_conn_exit [simp]:
  "files (conn_exit c b w) = files w"
  "expand_path (conn_exit c b w) = expand_path w"
  "sanity_check_cache (conn_exit c b w) = sanity_check_cache w"
  by (simp_all add: conn_exit_def emit_def)








text \<open>
  The invariant is needed.  Where two places share an id the join gives the visit once
  per place, each row with the title of its own place, while the merge gives both
  rows the title of the place that comes last.
\<close>

lemma duplicate_place_ids_differ:
  "\<not> place_ids_unique (Database duplicate_id_db) \<and>
   (case run COMBINED_QUERY duplicate_id_db of
      Inl e \<Rightarrow> Inl e
    | Inr rows \<Rightarrow> map_sum id (map title) (collect (make_Visit id) rows)) =
     Inr [Some ''A'', Some ''B''] \<and>
   (case run VISIT_QUERY duplicate_id_db of
      Inl e \<Rightarrow> Inl e
    | Inr visit_rows \<Rightarrow>
        (case collect (make_MozVisit id) visit_rows of
           Inl e \<Rightarrow> Inl e
         | Inr visit_list \<Rightarrow>
             (case run SITEDATA_QUERY duplicate_id_db of
                Inl e \<Rightarrow> Inl e
              | Inr site_rows \<Rightarrow>
                  (case collect (make_MozPlace id) site_rows of
                     Inl e \<Rightarrow> Inl e
                   | Inr site_list \<Rightarrow>
                       Inr (map title (single_db_merge visit_list site_list)))))) =
     Inr [Some ''B'', Some ''B'']"
  by (simp add: place_ids_unique_def duplicate_id_db_def COMBINED_QUERY_def VISIT_QUERY_def
      SITEDATA_QUERY_def from_V_P_def visits_join_def make_Visit_def make_MozVisit_def
      make_MozPlace_def fromtimestamp_zero single_db_merge_def merge_one_def)

section \<open>Properties of the timestamp conversion\<close>

lemma bit_length_0 [simp]: "bit_length 0 = 0"
  by (simp add: bit_length.simps)


lemma rne_div_error: "0 < b \<Longrightarrow> 2 * \<bar>rne_div a b * b - a\<bar> \<le> b"
proof -
  assume b: "0 < b"
  have e: "a = a div b * b + a mod b"
    by simp
  have r: "0 \<le> a mod b" "a mod b < b"
    using b by simp_all
  show ?thesis
  proof (cases "2 * (a mod b) < b")
    case True
    then have "rne_div a b = a div b"
      by (simp add: rne_div_def Let_def)
    then have "rne_div a b * b - a = - (a mod b)"
      using e by (simp add: algebra_simps)
    then show ?thesis
      using True r by simp
  next
    case False
    show ?thesis
    proof (cases "b < 2 * (a mod b)")
      case True
      then have "rne_div a b = a div b + 1"
        using False by (simp add: rne_div_def Let_def)
      then have "rne_div a b * b - a = b - a mod b"
        using e by (simp add: algebra_simps)
      then show ?thesis
        using True r by simp
    next
      case F2: False
      with False have h: "2 * (a mod b) = b" by simp
      have "rne_div a b = a div b \<or> rne_div a b = a div b + 1"
        by (simp add: rne_div_def Let_def)
      then have "rne_div a b * b - a = - (a mod b) \<or> rne_div a b * b - a = b - a mod b"
        using e by (auto simp: algebra_simps)
      then show ?thesis
        using h r by auto
    qed
  qed
qed

lemma rne_div_nearest:
  assumes "0 < b" and "2 * \<bar>a - r * b\<bar> < b"
  shows "rne_div a b = r"
proof -
  define X where "X = rne_div a b * b"
  define Y where "Y = r * b"
  have "2 * \<bar>X - a\<bar> \<le> b"
    unfolding X_def using assms(1) by (rule rne_div_error)
  moreover have "2 * \<bar>a - Y\<bar> < b"
    unfolding Y_def using assms(2) .
  ultimately have "\<bar>X - Y\<bar> < b"
    by (auto simp: abs_if split: if_splits)
  then have "\<bar>(rne_div a b - r) * b\<bar> < b"
    by (simp add: X_def Y_def algebra_simps)
  then have "\<bar>rne_div a b - r\<bar> * b < 1 * b"
    using assms(1) by (simp add: abs_mult)
  then have "\<bar>rne_div a b - r\<bar> < 1"
    using assms(1) by (simp only: mult_less_cancel_right)
  then show ?thesis
    by simp
qed

lemma rne_div_exact: "0 < b \<Longrightarrow> rne_div (q * b) b = q"
  by (rule rne_div_nearest) simp_all













end
